theory Spec2Isabelle
  imports Main "HOL-Library.Sublist"
begin

section \<open>Python values and exceptions\<close>

text \<open>
  The module \<^verbatim>\<open>match_wrapper/match.py\<close> is Python 2 code (it tests
  \<^verbatim>\<open>isinstance(val, basestring)\<close>). A value handed to it is one of the
  following: \<^verbatim>\<open>None\<close>, a bool, an int, a finite float \<open>m * 2 ^ e\<close> (written
  \<open>VFloat m e\<close>, so \<open>VFloat 0 0\<close> is \<^verbatim>\<open>0.0\<close> and \<open>VFloat 3 (-1)\<close> is \<^verbatim>\<open>1.5\<close>),
  a string, or a list of values. A tuple behaves like a list wherever this module tests
  or iterates a value; the one difference, that a tuple of hashable values can be a
  dictionary key, is outside the model, which takes every \<open>VSeq\<close> as a list.
\<close>

datatype pyval =
    VNone
  | VBool bool
  | VInt int
  | VFloat int int
  | VStr string
  | VSeq "pyval list"

datatype pyexn =
  KeyError | IndexError | TypeError | ValueError | AttributeError | OverflowError

text \<open>Python's truth value of an object, as \<^verbatim>\<open>if val:\<close> and \<^verbatim>\<open>val or ...\<close> use it.\<close>

fun truthy :: "pyval \<Rightarrow> bool" where
  "truthy VNone = False"
| "truthy (VBool b) = b"
| "truthy (VInt n) = (n \<noteq> 0)"
| "truthy (VFloat m e) = (m \<noteq> 0)"
| "truthy (VStr s) = (s \<noteq> [])"
| "truthy (VSeq xs) = (xs \<noteq> [])"

text \<open>\<^verbatim>\<open>isinstance(val, basestring)\<close>.\<close>

fun is_basestring :: "pyval \<Rightarrow> bool" where
  "is_basestring (VStr s) = True"
| "is_basestring v = False"

text \<open>
  \<^verbatim>\<open>iter(val)\<close>: a list gives its elements, a string its characters, anything else
  raises TypeError.
\<close>

fun py_iter :: "pyval \<Rightarrow> pyexn + pyval list" where
  "py_iter (VSeq xs) = Inr xs"
| "py_iter (VStr s) = Inr (map (\<lambda>c. VStr [c]) s)"
| "py_iter v = Inl TypeError"

text \<open>\<^verbatim>\<open>delim.join(strs)\<close> for a list of strings.\<close>

fun join :: "string \<Rightarrow> string list \<Rightarrow> string" where
  "join d [] = []"
| "join d [x] = x"
| "join d (x # y # r) = x @ d @ join d (y # r)"

text \<open>
  \<^verbatim>\<open>str.format\<close> is Python's, not this module's, and its format mini-language is not
  modelled in general. The functions below take it as a parameter \<open>fmt\<close>:
  \<open>fmt p v\<close> is the outcome of \<^verbatim>\<open>p.format(v)\<close> for a pattern string \<open>p\<close> and one
  argument \<open>v\<close>, an exception or the formatted string. Every theorem stated for \<open>fmt\<close>
  holds whatever \<^verbatim>\<open>str.format\<close> does.
\<close>

type_synonym formatting = "string \<Rightarrow> pyval \<Rightarrow> pyexn + string"

text \<open>
  \<^verbatim>\<open>'{:s}'.format(v)\<close>, the field the module's own patterns use. A string is
  inserted as it is; bool, int and float reject the code \<^verbatim>\<open>s\<close> with ValueError; \<^verbatim>\<open>None\<close>
  is formatted through \<^verbatim>\<open>str(None)\<close>; a list is formatted through \<^verbatim>\<open>str\<close> of the
  list, which is left to \<open>fmt\<close>.
\<close>

fun format_s :: "formatting \<Rightarrow> pyval \<Rightarrow> pyexn + string" where
  "format_s fmt (VStr s) = Inr s"
| "format_s fmt VNone = Inr ''None''"
| "format_s fmt (VSeq xs) = fmt ''{:s}'' (VSeq xs)"
| "format_s fmt v = Inl ValueError"

section \<open>FlagFormatter\<close>

text \<open>
  A value of \<^verbatim>\<open>fmt_dict\<close> is one format string, or a list or tuple of format strings
  (the class docstring: "A key can be assigned a list or tuple of format strings").
\<close>

datatype fmt_rule = Pattern string | Patterns "string list"

record FlagFormatter =
  fmt_dict :: "string \<rightharpoonup> fmt_rule"

text \<open>The dictionary literal of \<^verbatim>\<open>FlagFormatter.__init__\<close>, in the source's order.\<close>

definition default_fmt_dict :: "(string \<times> fmt_rule) list" where
  "default_fmt_dict =
    [(''dAv'', Pattern ''{:.2f}''),
     (''diskAv'', Pattern ''{:.2f}''),
     (''dAvy'', Pattern ''{:.2f}''),
     (''zerobin'', Pattern ''{:d}''),
     (''incmult'', Pattern ''{:.2f}''),
     (''incmultsig'', Pattern ''{:.2f}''),
     (''errmult'', Pattern ''{:.2f}''),
     (''errmultsig'', Pattern ''{:.2f}''),
     (''logterr'', Pattern ''{:.2f}''),
     (''logterrsig'', Pattern ''{:.2f}''),
     (''mbolerr'', Pattern ''{:.2f}''),
     (''mbolerrsig'', Pattern ''{:.2f}''),
     (''mcseed'', Pattern ''{:.2f}''),
     (''alpha'', Pattern ''{:.2f}''),
     (''dt'', Pattern ''{:.2f}''),
     (''nburn'', Pattern ''{:d}''),
     (''nmc'', Pattern ''{:d}''),
     (''nt'', Pattern ''{:d}''),
     (''nsfr'', Pattern ''{:d}''),
     (''pscape'', Pattern ''{:.2f}''),
     (''tint'', Pattern ''{:.2f}'')]"

text \<open>
  \<^verbatim>\<open>for key, val in kwargs.items(): if key in self.fmt_dict: self.fmt_dict[key] = val\<close>.
  The keyword arguments are the list of their items; Python gives every key once.
\<close>

definition override :: "string \<times> fmt_rule \<Rightarrow> (string \<rightharpoonup> fmt_rule) \<Rightarrow> (string \<rightharpoonup> fmt_rule)" where
  "override kv d = (if d (fst kv) \<noteq> None then d(fst kv \<mapsto> snd kv) else d)"

definition FlagFormatter_init :: "(string \<times> fmt_rule) list \<Rightarrow> FlagFormatter" where
  "FlagFormatter_init kwargs = \<lparr>fmt_dict = fold override kwargs (map_of default_fmt_dict)\<rparr>"

text \<open>
  \<^verbatim>\<open>self.fmt_dict[key]\<close>: the keys of the dictionary are strings, so a key of another
  hashable type is missing (KeyError); a list is unhashable (TypeError).
\<close>

fun getitem :: "(string \<rightharpoonup> fmt_rule) \<Rightarrow> pyval \<Rightarrow> pyexn + fmt_rule" where
  "getitem d (VStr s) = (case d s of None \<Rightarrow> Inl KeyError | Some r \<Rightarrow> Inr r)"
| "getitem d (VSeq xs) = Inl TypeError"
| "getitem d k = Inl KeyError"

text \<open>
  \<^verbatim>\<open>fmt.format(val)\<close> on the looked-up rule: a list or tuple has no attribute
  \<^verbatim>\<open>format\<close>.
\<close>

fun rule_format :: "formatting \<Rightarrow> fmt_rule \<Rightarrow> pyval \<Rightarrow> pyexn + string" where
  "rule_format fmt (Pattern p) v = fmt p v"
| "rule_format fmt (Patterns ps) v = Inl AttributeError"

text \<open>Iterating the rule, as \<^verbatim>\<open>zip(val, fmt)\<close> does: a string gives its characters.\<close>

fun rule_iter :: "fmt_rule \<Rightarrow> string list" where
  "rule_iter (Pattern p) = map (\<lambda>c. [c]) p"
| "rule_iter (Patterns ps) = ps"

text \<open>
  A list comprehension \<^verbatim>\<open>[f.format(v) for v, f in pairs]\<close>: the elements are formatted
  in order and the first exception ends the comprehension.
\<close>

fun format_each :: "formatting \<Rightarrow> (pyval \<times> string) list \<Rightarrow> pyexn + string list" where
  "format_each fmt [] = Inr []"
| "format_each fmt ((v, f) # rest) =
     (case fmt f v of
        Inl e \<Rightarrow> Inl e
      | Inr s \<Rightarrow> (case format_each fmt rest of Inl e \<Rightarrow> Inl e | Inr ss \<Rightarrow> Inr (s # ss)))"

text \<open>\<^verbatim>\<open>[f.format(v) for v, f in zip(val, fmt)]\<close>.\<close>

definition zip_format :: "formatting \<Rightarrow> fmt_rule \<Rightarrow> pyval \<Rightarrow> pyexn + string list" where
  "zip_format fmt rule val =
     (case py_iter val of
        Inl e \<Rightarrow> Inl e
      | Inr vs \<Rightarrow> format_each fmt (zip vs (rule_iter rule)))"

text \<open>
  \<^verbatim>\<open>[fmt.format(v) for v in val]\<close>: \<^verbatim>\<open>val\<close> is iterated first; the attribute
  \<^verbatim>\<open>fmt.format\<close> is looked up for each element.
\<close>

definition seq_format :: "formatting \<Rightarrow> fmt_rule \<Rightarrow> pyval \<Rightarrow> pyexn + string list" where
  "seq_format fmt rule val =
     (case py_iter val of
        Inl e \<Rightarrow> Inl e
      | Inr vs \<Rightarrow>
          (case rule of
             Pattern p \<Rightarrow> format_each fmt (map (\<lambda>v. (v, p)) vs)
           | Patterns ps \<Rightarrow> (if vs = [] then Inr [] else Inl AttributeError)))"

text \<open>\<^verbatim>\<open>[fmt.format(val)]\<close>.\<close>

definition one_format :: "formatting \<Rightarrow> fmt_rule \<Rightarrow> pyval \<Rightarrow> pyexn + string list" where
  "one_format fmt rule val =
     (case rule_format fmt rule val of Inl e \<Rightarrow> Inl e | Inr s \<Rightarrow> Inr [s])"

text \<open>
  The body of the \<^verbatim>\<open>elif\<close> branch that computes \<^verbatim>\<open>valstr_list\<close>: a string is
  formatted at once; otherwise the zip is tried, on TypeError or ValueError the
  element-wise formatting, and on TypeError there the single value.
\<close>

definition valstr_list :: "formatting \<Rightarrow> fmt_rule \<Rightarrow> pyval \<Rightarrow> pyexn + string list" where
  "valstr_list fmt rule val =
     (if is_basestring val then one_format fmt rule val
      else
        (case zip_format fmt rule val of
           Inr l \<Rightarrow> Inr l
         | Inl e \<Rightarrow>
             (if e = TypeError \<or> e = ValueError then
                (case seq_format fmt rule val of
                   Inr l \<Rightarrow> Inr l
                 | Inl e' \<Rightarrow> (if e' = TypeError then one_format fmt rule val else Inl e'))
              else Inl e)))"

text \<open>
  \<^verbatim>\<open>FlagFormatter.__call__(self, key, val, delim=',')\<close>. The result is an exception, or
  the returned object: \<open>None\<close> for \<^verbatim>\<open>None\<close>, \<open>Some s\<close> for the string \<open>s\<close>.
  \<^verbatim>\<open>val is True\<close> holds of the bool \<^verbatim>\<open>True\<close> only; \<^verbatim>\<open>val is 0\<close> holds of the int
  \<^verbatim>\<open>0\<close> only (CPython keeps one object for it), not of \<^verbatim>\<open>0.0\<close> and not of
  \<^verbatim>\<open>False\<close>. In \<^verbatim>\<open>'-{0:s}={1:s}'.format(key, valstr)\<close> the key has passed the
  dictionary lookup and is a string.
\<close>

definition FlagFormatter_call ::
  "formatting \<Rightarrow> FlagFormatter \<Rightarrow> pyval \<Rightarrow> pyval \<Rightarrow> string \<Rightarrow> pyexn + string option" where
  "FlagFormatter_call fmt self key val delim =
     (if val = VBool True then
        (case format_s fmt key of Inl e \<Rightarrow> Inl e | Inr k \<Rightarrow> Inr (Some (''-'' @ k)))
      else if truthy val \<or> val = VInt 0 then
        (case getitem (fmt_dict self) key of
           Inl e \<Rightarrow> Inl e
         | Inr rule \<Rightarrow>
             (case valstr_list fmt rule val of
                Inl e \<Rightarrow> Inl e
              | Inr l \<Rightarrow>
                  (case format_s fmt key of
                     Inl e \<Rightarrow> Inl e
                   | Inr k \<Rightarrow> Inr (Some (''-'' @ k @ ''='' @ join delim l)))))
      else Inr None)"

section \<open>The wrappers\<close>

text \<open>
  \<^verbatim>\<open>**kwargs\<close> is a dictionary. Its keys are strings when the wrapper is called, and
  \<^verbatim>\<open>calcsfh\<close> stores further keys in it. \<^verbatim>\<open>kwargs.get(k)\<close> is \<^verbatim>\<open>None\<close> for a
  missing key.
\<close>

type_synonym kwargs = "pyval \<rightharpoonup> pyval"

definition kwargs_get :: "kwargs \<Rightarrow> pyval \<Rightarrow> pyval" where
  "kwargs_get kwargs k = (case kwargs k of None \<Rightarrow> VNone | Some v \<Rightarrow> v)"

text \<open>
  A formatter is "any function that takes a flag name and a value as the first and
  second arguments, and returns a string representation of the value" or \<^verbatim>\<open>None\<close>.
  A FlagFormatter instance is called with the default delimiter.
\<close>

type_synonym formatter = "pyval \<Rightarrow> pyval \<Rightarrow> pyexn + string option"

definition as_formatter :: "formatting \<Rightarrow> FlagFormatter \<Rightarrow> formatter" where
  "as_formatter fmt self = (\<lambda>key val. FlagFormatter_call fmt self key val '','')"

text \<open>
  \<^verbatim>\<open>formatter = kwargs.get('formatter', FlagFormatter())\<close>. The model keeps a callable
  apart from the dictionary, whose values are data: \<open>given\<close> is the function passed as
  \<^verbatim>\<open>formatter\<close>, if any. A value stored under the key \<^verbatim>\<open>'formatter'\<close> is not callable,
  and calling it raises TypeError.
\<close>

definition get_formatter :: "formatting \<Rightarrow> kwargs \<Rightarrow> formatter option \<Rightarrow> formatter" where
  "get_formatter fmt kwargs given =
     (case kwargs (VStr ''formatter'') of
        Some v \<Rightarrow> (\<lambda>key val. Inl TypeError)
      | None \<Rightarrow>
          (case given of
             Some f \<Rightarrow> f
           | None \<Rightarrow> as_formatter fmt (FlagFormatter_init [])))"

text \<open>
  \<^verbatim>\<open>flagstr_gen = (formatter(flag, kwargs.get(flag)) for flag in flag_list)\<close> and
  \<^verbatim>\<open>flagstr_list = [flagstr for flagstr in flagstr_gen if flagstr]\<close>: the flags are
  formatted in order, the first exception ends the call, and \<^verbatim>\<open>None\<close> and the empty
  string are filtered out.
\<close>

fun flagstr_list :: "formatter \<Rightarrow> kwargs \<Rightarrow> pyval list \<Rightarrow> pyexn + string list" where
  "flagstr_list formatter kwargs [] = Inr []"
| "flagstr_list formatter kwargs (flag # rest) =
     (case formatter flag (kwargs_get kwargs flag) of
        Inl e \<Rightarrow> Inl e
      | Inr flagstr \<Rightarrow>
          (case flagstr_list formatter kwargs rest of
             Inl e \<Rightarrow> Inl e
           | Inr l \<Rightarrow>
               Inr (case flagstr of
                      None \<Rightarrow> l
                    | Some s \<Rightarrow> (if s = [] then l else s # l))))"

text \<open>
  \<^verbatim>\<open>if flagstr_list: cmd = '{0:s} {1:s}'.format(cmd, ' '.join(flagstr_list))\<close>; both
  arguments are strings.
\<close>

definition add_flags :: "string \<Rightarrow> string list \<Rightarrow> string" where
  "add_flags cmd l = (if l = [] then cmd else cmd @ '' '' @ join '' '' l)"

text \<open>
  \<^verbatim>\<open>outfile = kwargs.get('outfile')\<close>,
  \<^verbatim>\<open>if outfile: cmd = '{0:s} > {1:s}'.format(cmd, outfile)\<close>.
\<close>

definition add_outfile :: "formatting \<Rightarrow> kwargs \<Rightarrow> string \<Rightarrow> pyexn + string" where
  "add_outfile fmt kwargs cmd =
     (if truthy (kwargs_get kwargs (VStr ''outfile'')) then
        (case format_s fmt (kwargs_get kwargs (VStr ''outfile'')) of
           Inl e \<Rightarrow> Inl e
         | Inr s \<Rightarrow> Inr (cmd @ '' > '' @ s))
      else Inr cmd)"

text \<open>
  The end of every wrapper: with \<^verbatim>\<open>norun\<close> the command string is returned; otherwise
  it is handed to \<^verbatim>\<open>subprocess.call(cmd, shell=True)\<close> and \<^verbatim>\<open>None\<close> is returned.
\<close>

datatype outcome = Returned string | Ran string

definition finish :: "kwargs \<Rightarrow> string \<Rightarrow> outcome" where
  "finish kwargs cmd =
     (if truthy (kwargs_get kwargs (VStr ''norun'')) then Returned cmd else Ran cmd)"

text \<open>
  The positional arguments go through \<^verbatim>\<open>{i:s}\<close> fields, from left to right.
\<close>

fun format_args :: "formatting \<Rightarrow> pyval list \<Rightarrow> pyexn + string list" where
  "format_args fmt [] = Inr []"
| "format_args fmt (v # vs) =
     (case format_s fmt v of
        Inl e \<Rightarrow> Inl e
      | Inr s \<Rightarrow> (case format_args fmt vs of Inl e \<Rightarrow> Inl e | Inr ss \<Rightarrow> Inr (s # ss)))"

subsection \<open>calcsfh\<close>

text \<open>
  One selection block of \<^verbatim>\<open>calcsfh\<close>, for \<^verbatim>\<open>mode\<close>, \<^verbatim>\<open>model\<close> and
  \<^verbatim>\<open>transformation\<close>:
  \<^verbatim>\<open>flag = kwargs.get(name)\<close>, \<^verbatim>\<open>if flag: kwargs[flag] = True; flag_list.append(flag)\<close>.
  Storing under a list raises TypeError (unhashable).
\<close>

fun hashable :: "pyval \<Rightarrow> bool" where
  "hashable (VSeq xs) = False"
| "hashable v = True"

definition select_flag :: "string \<Rightarrow> kwargs \<times> pyval list \<Rightarrow> pyexn + kwargs \<times> pyval list" where
  "select_flag name st =
     (if truthy (kwargs_get (fst st) (VStr name)) then
        (if hashable (kwargs_get (fst st) (VStr name)) then
           Inr ((fst st)(kwargs_get (fst st) (VStr name) \<mapsto> VBool True),
                snd st @ [kwargs_get (fst st) (VStr name)])
         else Inl TypeError)
      else Inr st)"

definition mode_flags :: "pyval list" where
  "mode_flags = map VStr [''ddist'', ''full'', ''verb'', ''allstars'', ''mcdata'', ''allmcdata'']"

definition model_generation_flags :: "pyval list" where
  "model_generation_flags =
     map VStr [''dAv'', ''diskAv'', ''dAvy'', ''appDmod'', ''zerobin'', ''incmult'',
               ''incmultsig'', ''errmult'', ''errmultsig'', ''logterr'',
               ''logterrsig'', ''mbolerr'', ''mbolerrsig'', ''mcseed'']"

text \<open>
  The dictionary and the flag list after the three selection blocks. \<^verbatim>\<open>alpha\<close> is
  appended inside the model block, when \<^verbatim>\<open>modelflag in ['DART']\<close>.
\<close>

definition calcsfh_flags :: "kwargs \<Rightarrow> pyexn + kwargs \<times> pyval list" where
  "calcsfh_flags kwargs =
     (case select_flag ''mode'' (kwargs, []) of
        Inl e \<Rightarrow> Inl e
      | Inr st1 \<Rightarrow>
          (case select_flag ''model'' (fst st1, snd st1 @ mode_flags @ model_generation_flags) of
             Inl e \<Rightarrow> Inl e
           | Inr st2 \<Rightarrow>
               select_flag ''transformation''
                 (fst st2,
                  if kwargs_get (fst st1) (VStr ''model'') = VStr ''DART''
                  then snd st2 @ [VStr ''alpha''] else snd st2)))"

text \<open>The list \<^verbatim>\<open>flagstr_list\<close> of \<^verbatim>\<open>calcsfh\<close>, with the dictionary it was read from.\<close>

definition calcsfh_flagstrs ::
  "formatting \<Rightarrow> kwargs \<Rightarrow> formatter option \<Rightarrow> pyexn + kwargs \<times> string list" where
  "calcsfh_flagstrs fmt kwargs given =
     (case calcsfh_flags kwargs of
        Inl e \<Rightarrow> Inl e
      | Inr st \<Rightarrow>
          (case flagstr_list (get_formatter fmt (fst st) given) (fst st) (snd st) of
             Inl e \<Rightarrow> Inl e
           | Inr l \<Rightarrow> Inr (fst st, l)))"

definition calcsfh ::
  "formatting \<Rightarrow> pyval \<Rightarrow> pyval \<Rightarrow> pyval \<Rightarrow> pyval \<Rightarrow> kwargs \<Rightarrow> formatter option \<Rightarrow> pyexn + outcome" where
  "calcsfh fmt paramfile photfile fakefile sfhfile kwargs given =
     (case format_args fmt [paramfile, photfile, fakefile, sfhfile] of
        Inl e \<Rightarrow> Inl e
      | Inr args \<Rightarrow>
          (case calcsfh_flagstrs fmt kwargs given of
             Inl e \<Rightarrow> Inl e
           | Inr r \<Rightarrow>
               (case add_outfile fmt (fst r) (add_flags (''calcsfh '' @ join '' '' args) (snd r)) of
                  Inl e \<Rightarrow> Inl e
                | Inr cmd \<Rightarrow> Inr (finish (fst r) cmd))))"

subsection \<open>hybridMC\<close>

definition hybridMC_flags :: "pyval list" where
  "hybridMC_flags =
     map VStr [''countall'', ''dt'', ''keepall'', ''nburn'', ''nmc'', ''nt'', ''nsfr'',
               ''pscape'', ''tint'']"

text \<open>
  \<^verbatim>\<open>cmd = 'hybridMC {0:s} {1:s}'.format(hmcsfhfile, hmcdatfile)\<close>: the parameters are
  \<^verbatim>\<open>(hmcdatfile, hmcsfhfile)\<close>, the fields take them in the other order.
\<close>

definition hybridMC ::
  "formatting \<Rightarrow> pyval \<Rightarrow> pyval \<Rightarrow> kwargs \<Rightarrow> formatter option \<Rightarrow> pyexn + outcome" where
  "hybridMC fmt hmcdatfile hmcsfhfile kwargs given =
     (case format_args fmt [hmcsfhfile, hmcdatfile] of
        Inl e \<Rightarrow> Inl e
      | Inr args \<Rightarrow>
          (case flagstr_list (get_formatter fmt kwargs given) kwargs hybridMC_flags of
             Inl e \<Rightarrow> Inl e
           | Inr l \<Rightarrow>
               (case add_outfile fmt kwargs (add_flags (''hybridMC '' @ join '' '' args) l) of
                  Inl e \<Rightarrow> Inl e
                | Inr cmd \<Rightarrow> Inr (finish kwargs cmd))))"

subsection \<open>zcmerge\<close>

text \<open>
  \<^verbatim>\<open>if not isinstance(zcbfile_list, basestring): zcbfile_list = ' '.join(zcbfile_list)\<close>:
  \<^verbatim>\<open>join\<close> raises TypeError for an argument that is not iterable and for an item that
  is not a string.
\<close>

fun str_items :: "pyval list \<Rightarrow> pyexn + string list" where
  "str_items [] = Inr []"
| "str_items (VStr s # vs) = (case str_items vs of Inl e \<Rightarrow> Inl e | Inr ss \<Rightarrow> Inr (s # ss))"
| "str_items (v # vs) = Inl TypeError"

fun join_files :: "pyval \<Rightarrow> pyexn + pyval" where
  "join_files (VStr s) = Inr (VStr s)"
| "join_files (VSeq vs) = (case str_items vs of Inl e \<Rightarrow> Inl e | Inr ss \<Rightarrow> Inr (VStr (join '' '' ss)))"
| "join_files v = Inl TypeError"

text \<open>
  \<^verbatim>\<open>zcmerge\<close> always uses a fresh \<^verbatim>\<open>FlagFormatter()\<close>; \<^verbatim>\<open>absolute\<close> has no entry in
  its \<^verbatim>\<open>fmt_dict\<close>.
\<close>

definition zcmerge :: "formatting \<Rightarrow> pyval \<Rightarrow> pyval \<Rightarrow> kwargs \<Rightarrow> pyexn + outcome" where
  "zcmerge fmt zcbfile_list merged_zcbfile kwargs =
     (case as_formatter fmt (FlagFormatter_init []) (VStr ''absolute'')
             (kwargs_get kwargs (VStr ''absolute'')) of
        Inl e \<Rightarrow> Inl e
      | Inr flagstr \<Rightarrow>
          (case join_files zcbfile_list of
             Inl e \<Rightarrow> Inl e
           | Inr files \<Rightarrow>
               (case format_args fmt [files, merged_zcbfile] of
                  Inl e \<Rightarrow> Inl e
                | Inr args \<Rightarrow>
                    Inr (finish kwargs
                          (add_flags ''zcmerge'' (case flagstr of
                             None \<Rightarrow> []
                           | Some s \<Rightarrow> (if s = [] then [] else [s]))
                           @ '' '' @ join '' > '' args)))))"

subsection \<open>Selections that spell the alpha flag\<close>

text \<open>
  \<^verbatim>\<open>calcsfh\<close> turns the value of \<^verbatim>\<open>mode\<close>, \<^verbatim>\<open>model\<close> and \<^verbatim>\<open>transformation\<close> into a
  flag of that name, whatever the name is. The documented selections (\<^verbatim>\<open>'setz'\<close>,
  \<^verbatim>\<open>'ssp'\<close>, \<^verbatim>\<open>'zinc'\<close>; \<^verbatim>\<open>'BASTInov'\<close>, ..., \<^verbatim>\<open>'VICTORIASS'\<close>) do not begin with
  \<^verbatim>\<open>alpha\<close>; \<open>plain_selections\<close> says so of the three options of a call.
\<close>

fun spells_alpha :: "pyval \<Rightarrow> bool" where
  "spells_alpha (VStr s) = prefix ''alpha'' s"
| "spells_alpha v = False"

definition plain_selections :: "kwargs \<Rightarrow> bool" where
  "plain_selections kwargs =
     (\<not> spells_alpha (kwargs_get kwargs (VStr ''mode'')) \<and>
      \<not> spells_alpha (kwargs_get kwargs (VStr ''model'')) \<and>
      \<not> spells_alpha (kwargs_get kwargs (VStr ''transformation'')))"

section \<open>An instance of str.format\<close>

text \<open>
  To run the functions above on concrete calls, \<open>str_format\<close> computes
  \<^verbatim>\<open>p.format(v)\<close> for the patterns of \<open>default_fmt_dict\<close> and their like:
  \<^verbatim>\<open>{:d}\<close>, \<^verbatim>\<open>{:s}\<close>, \<^verbatim>\<open>{:.Nf}\<close> with a decimal precision \<open>N\<close>, and a pattern
  without braces, which is its own result. A lone brace, as \<^verbatim>\<open>zip\<close> cuts it out of a
  pattern string, is malformed (ValueError). \<open>str_format\<close> is not a model of
  \<^verbatim>\<open>str.format\<close> beyond these patterns, nor of \<^verbatim>\<open>{:s}\<close> on a list: there it answers
  ValueError for want of a result. It is used for examples only.
\<close>

definition digit :: "nat \<Rightarrow> char" where
  "digit d = ''0123456789'' ! d"

function decimal :: "nat \<Rightarrow> string" where
  "decimal n = (if n < 10 then [digit n] else decimal (n div 10) @ [digit (n mod 10)])"
  by pat_completeness auto
termination
  by (relation "measure id") auto

declare decimal.simps [simp del]

text \<open>\<^verbatim>\<open>'{:d}'.format(v)\<close>: an int in decimal, a bool as the int it is.\<close>

fun format_d :: "pyval \<Rightarrow> pyexn + string" where
  "format_d (VInt n) = Inr ((if n < 0 then ''-'' else []) @ decimal (nat \<bar>n\<bar>))"
| "format_d (VBool b) = Inr (if b then ''1'' else ''0'')"
| "format_d v = Inl ValueError"

text \<open>
  The quotient \<open>num / den\<close> rounded to the nearest integer, a tie to the even one, as
  Python rounds a float to the digits it prints and an int to a float.
\<close>

definition round_half_even :: "nat \<Rightarrow> nat \<Rightarrow> nat" where
  "round_half_even num den =
     (if den < 2 * (num mod den) \<or> (2 * (num mod den) = den \<and> odd (num div den))
      then num div den + 1 else num div den)"

text \<open>The float \<open>m * 2 ^ e\<close> with \<open>p\<close> digits after the point.\<close>

definition fixed :: "nat \<Rightarrow> int \<Rightarrow> int \<Rightarrow> string" where
  "fixed p m e =
     (let q = (if 0 \<le> e then nat \<bar>m\<bar> * 2 ^ nat e * 10 ^ p
               else round_half_even (nat \<bar>m\<bar> * 10 ^ p) (2 ^ nat (- e)));
          frac = decimal (q mod 10 ^ p)
      in (if m < 0 then ''-'' else []) @ decimal (q div 10 ^ p) @
         (if p = 0 then [] else ''.'' @ replicate (p - length frac) (CHR ''0'') @ frac))"

text \<open>
  \<^verbatim>\<open>float(n)\<close> for an int: exact up to 53 bits, rounded to 53 bits beyond, and
  OverflowError from \<open>2 ^ 1024\<close> on.
\<close>

function bit_length :: "nat \<Rightarrow> nat" where
  "bit_length n = (if n = 0 then 0 else Suc (bit_length (n div 2)))"
  by pat_completeness auto
termination
  by (relation "measure id") auto

declare bit_length.simps [simp del]

definition float_of_int :: "int \<Rightarrow> pyexn + int \<times> int" where
  "float_of_int n =
     (if bit_length (nat \<bar>n\<bar>) \<le> 53 then Inr (n, 0)
      else
        (let s = bit_length (nat \<bar>n\<bar>) - 53;
             q = round_half_even (nat \<bar>n\<bar>) (2 ^ s)
         in if 2 ^ 1024 \<le> q * 2 ^ s then Inl OverflowError
            else Inr (sgn n * int q, int s)))"

text \<open>\<^verbatim>\<open>'{:.pf}'.format(v)\<close>: a float as it is, an int or a bool through \<^verbatim>\<open>float\<close>.\<close>

fun format_f :: "nat \<Rightarrow> pyval \<Rightarrow> pyexn + string" where
  "format_f p (VFloat m e) = Inr (fixed p m e)"
| "format_f p (VInt n) =
     (case float_of_int n of Inl e \<Rightarrow> Inl e | Inr me \<Rightarrow> Inr (fixed p (fst me) (snd me)))"
| "format_f p (VBool b) = Inr (fixed p (if b then 1 else 0) 0)"
| "format_f p v = Inl ValueError"

text \<open>The precision \<open>N\<close> of a pattern \<^verbatim>\<open>{:.Nf}\<close>.\<close>

definition fixed_precision :: "string \<Rightarrow> nat option" where
  "fixed_precision p =
     (if 5 < length p \<and> take 3 p = ''{:.'' \<and> drop (length p - 2) p = ''f}'' \<and>
         list_all (\<lambda>c. c \<in> set ''0123456789'') (take (length p - 5) (drop 3 p))
      then Some (foldl (\<lambda>a c. 10 * a + (of_char c - 48)) 0 (take (length p - 5) (drop 3 p)))
      else None)"

definition str_format :: formatting where
  "str_format p v =
     (if p = ''{:d}'' then format_d v
      else if p = ''{:s}'' then format_s (\<lambda>p v. Inl ValueError) v
      else
        (case fixed_precision p of
           Some n \<Rightarrow> format_f n v
         | None \<Rightarrow>
             (if list_all (\<lambda>c. c \<noteq> CHR ''{'' \<and> c \<noteq> CHR ''}'') p then Inr p
              else Inl ValueError)))"

section \<open>Running the instance\<close>

lemma decimal_digit: "n < 10 \<Longrightarrow> decimal n = [digit n]"
  by (simp add: decimal.simps)

lemma decimal_more: "\<not> n < 10 \<Longrightarrow> decimal n = decimal (n div 10) @ [digit (n mod 10)]"
  by (subst decimal.simps) simp

lemma bit_length_0: "bit_length 0 = 0"
  by (simp add: bit_length.simps)

lemma bit_length_pos: "0 < n \<Longrightarrow> bit_length n = Suc (bit_length (n div 2))"
  by (subst bit_length.simps) simp

lemmas run_format =
  str_format_def fixed_precision_def fixed_def round_half_even_def float_of_int_def
  decimal_digit decimal_more bit_length_0 bit_length_pos digit_def Let_def

lemmas run_call =
  FlagFormatter_call_def FlagFormatter_init_def override_def default_fmt_dict_def
  valstr_list_def zip_format_def seq_format_def one_format_def

lemma format_examples:
  "str_format ''{:.2f}'' (VFloat 3 (- 1)) = Inr ''1.50''"
  "str_format ''{:.2f}'' (VFloat 1 (- 3)) = Inr ''0.12''"
  "str_format ''{:.2f}'' (VFloat 3602879701896397 (- 54)) = Inr ''0.20''"
  "str_format ''{:.2f}'' (VInt 0) = Inr ''0.00''"
  "str_format ''{:d}'' (VInt (- 1234)) = Inr ''-1234''"
  "str_format ''{:d}'' (VFloat 3 (- 1)) = Inl ValueError"
  "str_format ''{:.2f}'' (VStr ''abc'') = Inl ValueError"
  "str_format ''{'' (VInt 1) = Inl ValueError"
  by (simp_all add: run_format)

section \<open>FlagFormatter.__call__: which values are rendered\<close>

text \<open>
  C5. For a registered flag name \<open>n\<close> and the value \<^verbatim>\<open>True\<close>, the call returns exactly
  the string \<^verbatim>\<open>-n\<close>: nothing is appended to the name, neither \<^verbatim>\<open>=\<close> nor a formatted
  value.
\<close>

theorem true_renders_bare_flag:
  "n \<in> dom (fmt_dict self) \<Longrightarrow>
   FlagFormatter_call fmt self (VStr n) (VBool True) delim = Inr (Some (''-'' @ n))"
  by (simp add: FlagFormatter_call_def)

theorem true_renders_bare_flag_witness:
  "''nburn'' \<in> dom (fmt_dict (FlagFormatter_init [])) \<and>
   FlagFormatter_call str_format (FlagFormatter_init []) (VStr ''nburn'') (VBool True) '','' =
     Inr (Some ''-nburn'')"
proof -
  have reg: "''nburn'' \<in> dom (fmt_dict (FlagFormatter_init []))"
    by (simp add: FlagFormatter_init_def default_fmt_dict_def)
  show ?thesis
    using reg true_renders_bare_flag [OF reg, of str_format "'',''"] by simp
qed

text \<open>
  C10. Whether the flag name is registered or not, the value \<^verbatim>\<open>True\<close> gives \<^verbatim>\<open>-name\<close>
  and the values \<^verbatim>\<open>False\<close>, \<^verbatim>\<open>None\<close>, the empty list and the empty string give
  \<^verbatim>\<open>None\<close>, for every \<^verbatim>\<open>fmt_dict\<close>: the dictionary is not consulted and no lookup
  error arises. For an unregistered name the call fails exactly when a value has to be
  formatted, that is, when the value is not \<^verbatim>\<open>True\<close> and is truthy or the int
  \<^verbatim>\<open>0\<close>.
\<close>

theorem true_and_falsy_skip_lookup:
  "FlagFormatter_call fmt self (VStr n) (VBool True) delim = Inr (Some (''-'' @ n)) \<and>
   FlagFormatter_call fmt self (VStr n) (VBool False) delim = Inr None \<and>
   FlagFormatter_call fmt self (VStr n) VNone delim = Inr None \<and>
   FlagFormatter_call fmt self (VStr n) (VSeq []) delim = Inr None \<and>
   FlagFormatter_call fmt self (VStr n) (VStr []) delim = Inr None \<and>
   (n \<notin> dom (fmt_dict self) \<longrightarrow>
      ((\<exists>e. FlagFormatter_call fmt self (VStr n) val delim = Inl e) \<longleftrightarrow>
       (val \<noteq> VBool True \<and> (truthy val \<or> val = VInt 0))))"
  by (auto simp add: FlagFormatter_call_def domIff)

theorem true_and_falsy_skip_lookup_witness:
  "FlagFormatter_call str_format (FlagFormatter_init []) (VStr ''absolute'') (VBool True) '','' =
     Inr (Some ''-absolute'') \<and>
   FlagFormatter_call str_format (FlagFormatter_init []) (VStr ''absolute'') (VBool False) '','' =
     Inr None \<and>
   FlagFormatter_call str_format (FlagFormatter_init []) (VStr ''absolute'') VNone '','' =
     Inr None \<and>
   FlagFormatter_call str_format (FlagFormatter_init []) (VStr ''absolute'') (VSeq []) '','' =
     Inr None \<and>
   (\<exists>e. FlagFormatter_call str_format (FlagFormatter_init []) (VStr ''absolute'') (VInt 1) '','' =
     Inl e)"
proof -
  have unreg: "''absolute'' \<notin> dom (fmt_dict (FlagFormatter_init []))"
    by (simp add: FlagFormatter_init_def default_fmt_dict_def)
  show ?thesis
    using unreg
      true_and_falsy_skip_lookup [of str_format "FlagFormatter_init []" "''absolute''" "'',''" "VInt 1"]
    by simp
qed

text \<open>
  C4. For a flag name without a registered rule and a value that reaches the
  \<^verbatim>\<open>-name=value\<close> step (the guard \<^verbatim>\<open>val or val is 0\<close> after \<^verbatim>\<open>val is True\<close> has
  failed: the value is truthy and not \<^verbatim>\<open>True\<close>, or it is the int \<^verbatim>\<open>0\<close>), the call
  raises KeyError, a LookupError, whatever \<^verbatim>\<open>str.format\<close> would do.
\<close>

theorem unregistered_name_raises_KeyError:
  "n \<notin> dom (fmt_dict self) \<Longrightarrow> val \<noteq> VBool True \<Longrightarrow> truthy val \<or> val = VInt 0 \<Longrightarrow>
   FlagFormatter_call fmt self (VStr n) val delim = Inl KeyError"
  by (auto simp add: FlagFormatter_call_def domIff)

theorem unregistered_name_raises_KeyError_witness:
  "''appDmod'' \<notin> dom (fmt_dict (FlagFormatter_init [])) \<and>
   FlagFormatter_call str_format (FlagFormatter_init []) (VStr ''appDmod'') (VStr ''24.47'') '','' =
     Inl KeyError \<and>
   FlagFormatter_call str_format (FlagFormatter_init []) (VStr ''appDmod'') (VInt 0) '','' =
     Inl KeyError"
proof -
  have unreg: "''appDmod'' \<notin> dom (fmt_dict (FlagFormatter_init []))"
    by (simp add: FlagFormatter_init_def default_fmt_dict_def)
  have "FlagFormatter_call str_format (FlagFormatter_init []) (VStr ''appDmod'') (VStr ''24.47'') '','' =
     Inl KeyError"
    by (rule unregistered_name_raises_KeyError [OF unreg]) simp_all
  moreover have
    "FlagFormatter_call str_format (FlagFormatter_init []) (VStr ''appDmod'') (VInt 0) '','' =
     Inl KeyError"
    by (rule unregistered_name_raises_KeyError [OF unreg]) simp_all
  ultimately show ?thesis using unreg by simp
qed

text \<open>
  C1. The claim: the call returns \<^verbatim>\<open>None\<close> exactly for \<^verbatim>\<open>False\<close>, \<^verbatim>\<open>None\<close> and an
  empty sequence, and any zero value is rendered. The code renders the int \<^verbatim>\<open>0\<close> only:
  the guard \<^verbatim>\<open>val or val is 0\<close> is false of the float \<^verbatim>\<open>0.0\<close>, so with the default
  rules \<^verbatim>\<open>dAv=0.0\<close> is omitted where \<^verbatim>\<open>dAv=0\<close> gives \<^verbatim>\<open>-dAv=0.00\<close>.
\<close>

theorem float_zero_is_omitted:
  "FlagFormatter_call fmt (FlagFormatter_init []) (VStr ''dAv'') (VFloat 0 0) '','' = Inr None \<and>
   FlagFormatter_call str_format (FlagFormatter_init []) (VStr ''dAv'') (VInt 0) '','' =
     Inr (Some ''-dAv=0.00'') \<and>
   FlagFormatter_call str_format (FlagFormatter_init []) (VStr ''zerobin'') (VInt 0) '','' =
     Inr (Some ''-zerobin=0'')"
  by (simp add: run_call run_format)

section \<open>FlagFormatter.__call__: sequences and strings\<close>

lemma length_format_each: "format_each fmt ps = Inr l \<Longrightarrow> length l = length ps"
  by (induction fmt ps arbitrary: l rule: format_each.induct) (auto split: sum.splits)

text \<open>
  C2, as claimed: a rule that is a sequence of patterns and a sequence value of another
  length make the call fail. It does not: \<^verbatim>\<open>zip\<close> stops at the shorter of the two, so
  two patterns and three values give a token of two values.
\<close>

theorem length_mismatch_counterexample:
  "FlagFormatter_call str_format (FlagFormatter_init [(''diskAv'', Patterns [''{:d}'', ''{:d}''])])
     (VStr ''diskAv'') (VSeq [VInt 1, VInt 2, VInt 3]) '','' = Inr (Some ''-diskAv=1,2'')"
  by (simp add: run_call run_format)

text \<open>
  C2, amended. For a registered name whose rule is a sequence of patterns and a
  non-empty sequence value, of the same length or not, the values and the patterns are
  paired by position up to the shorter length; when every pair formats, the call returns
  \<^verbatim>\<open>-name=\<close> followed by the formatted pairs joined with the delimiter, as many as the
  shorter length. A difference in length is not reported.
\<close>

theorem zip_pairs_up_to_shorter:
  assumes "fmt_dict self n = Some (Patterns ps)" and "vs \<noteq> []"
    and "format_each fmt (zip vs ps) = Inr l"
  shows "FlagFormatter_call fmt self (VStr n) (VSeq vs) delim =
           Inr (Some (''-'' @ n @ ''='' @ join delim l)) \<and>
         length l = min (length vs) (length ps)"
  using assms length_format_each [OF assms(3)]
  by (simp add: FlagFormatter_call_def valstr_list_def zip_format_def)

theorem zip_pairs_up_to_shorter_witness:
  "FlagFormatter_call str_format
     (FlagFormatter_init [(''dAv'', Patterns [''{:.1f}'', ''{:.2f}'', ''{:.3f}''])])
     (VStr ''dAv'') (VSeq [VInt 7, VFloat 3 (- 1)]) '','' = Inr (Some ''-dAv=7.0,1.50'') \<and>
   length [''7.0'', ''1.50''] = min (length [VInt 7, VFloat 3 (- 1)]) (length [''{:.1f}'', ''{:.2f}'', ''{:.3f}''])"
proof -
  have rule: "fmt_dict (FlagFormatter_init [(''dAv'', Patterns [''{:.1f}'', ''{:.2f}'', ''{:.3f}''])])
      ''dAv'' = Some (Patterns [''{:.1f}'', ''{:.2f}'', ''{:.3f}''])"
    by (simp add: FlagFormatter_init_def override_def default_fmt_dict_def)
  have nonempty: "[VInt 7, VFloat 3 (- 1)] \<noteq> []"
    by simp
  have pairs: "format_each str_format (zip [VInt 7, VFloat 3 (- 1)] [''{:.1f}'', ''{:.2f}'', ''{:.3f}''])
      = Inr [''7.0'', ''1.50'']"
    by (simp add: run_format)
  show ?thesis
    using zip_pairs_up_to_shorter [OF rule nonempty pairs, of "'',''"] by simp
qed

text \<open>
  C3, as claimed: every string value is formatted as one scalar and a token is
  returned, also when the rule is a sequence of patterns. With such a rule no token is
  returned: \<^verbatim>\<open>fmt.format(val)\<close> is called on the sequence, which has no attribute
  \<^verbatim>\<open>format\<close>.
\<close>

theorem string_with_pattern_sequence_counterexample:
  "FlagFormatter_call str_format (FlagFormatter_init [(''diskAv'', Patterns [''{:s}'', ''{:s}''])])
     (VStr ''diskAv'') (VStr ''ab'') '','' = Inl AttributeError"
  by (simp add: run_call)

text \<open>
  C3, amended. For a registered name and a non-empty string value, whatever the rule,
  the string is neither zipped with the rule nor iterated as characters. When the rule
  is a single pattern, the pattern is applied once, to the whole string: the call
  returns \<^verbatim>\<open>-name=\<close> followed by the formatted string, or reports the error of that
  one formatting. When the rule is a sequence of patterns, no pattern is applied and no
  token is returned: the call raises AttributeError, whatever the patterns are.
\<close>

theorem string_is_formatted_whole:
  assumes "fmt_dict self n = Some rule" and "s \<noteq> []"
  shows "FlagFormatter_call fmt self (VStr n) (VStr s) delim =
           (case rule of
              Pattern p \<Rightarrow>
                (case fmt p (VStr s) of
                   Inl e \<Rightarrow> Inl e
                 | Inr r \<Rightarrow> Inr (Some (''-'' @ n @ ''='' @ r)))
            | Patterns ps \<Rightarrow> Inl AttributeError)"
  using assms
  by (cases rule)
     (simp_all add: FlagFormatter_call_def valstr_list_def one_format_def split: sum.splits)

theorem string_is_formatted_whole_witness:
  "FlagFormatter_call str_format (FlagFormatter_init [(''dAv'', Pattern ''{:s}'')])
     (VStr ''dAv'') (VStr ''ab'') '','' = Inr (Some ''-dAv=ab'') \<and>
   FlagFormatter_call str_format (FlagFormatter_init []) (VStr ''dAv'') (VStr ''ab'') '','' =
     Inl ValueError \<and>
   FlagFormatter_call str_format (FlagFormatter_init [(''dAv'', Patterns [''{:s}'', ''{:.2f}''])])
     (VStr ''dAv'') (VStr ''ab'') '','' = Inl AttributeError"
proof -
  have rule: "fmt_dict (FlagFormatter_init [(''dAv'', Pattern ''{:s}'')]) ''dAv'' = Some (Pattern ''{:s}'')"
    by (simp add: FlagFormatter_init_def override_def default_fmt_dict_def)
  have default_rule: "fmt_dict (FlagFormatter_init []) ''dAv'' = Some (Pattern ''{:.2f}'')"
    by (simp add: FlagFormatter_init_def default_fmt_dict_def)
  have rules: "fmt_dict (FlagFormatter_init [(''dAv'', Patterns [''{:s}'', ''{:.2f}''])]) ''dAv'' =
      Some (Patterns [''{:s}'', ''{:.2f}''])"
    by (simp add: FlagFormatter_init_def override_def default_fmt_dict_def)
  have nonempty: "''ab'' \<noteq> []"
    by simp
  show ?thesis
    using string_is_formatted_whole [OF rule nonempty, of str_format "'',''"]
      string_is_formatted_whole [OF default_rule nonempty, of str_format "'',''"]
      string_is_formatted_whole [OF rules nonempty, of str_format "'',''"]
    by (simp add: run_format)
qed

section \<open>zcmerge\<close>

text \<open>
  C9. \<^verbatim>\<open>zcmerge(['real.zcb', 'sim1.zcb', 'sim2.zcb'], 'merged.zcb', absolute=True, norun=True)\<close>
  returns exactly \<^verbatim>\<open>zcmerge -absolute real.zcb sim1.zcb sim2.zcb > merged.zcb\<close>.
\<close>

theorem zcmerge_example:
  "zcmerge fmt (VSeq [VStr ''real.zcb'', VStr ''sim1.zcb'', VStr ''sim2.zcb''])
     (VStr ''merged.zcb'') [VStr ''absolute'' \<mapsto> VBool True, VStr ''norun'' \<mapsto> VBool True] =
   Inr (Returned ''zcmerge -absolute real.zcb sim1.zcb sim2.zcb > merged.zcb'')"
  by (simp add: zcmerge_def as_formatter_def FlagFormatter_call_def kwargs_get_def finish_def
      add_flags_def)

section \<open>FlagFormatter.__init__\<close>

lemma dom_override: "dom (override kv d) = dom d"
  by (auto simp add: override_def)

lemma fold_override:
  "distinct (map fst kwargs) \<Longrightarrow>
   fold override kwargs d k =
     (if k \<in> dom d then (case map_of kwargs k of Some r \<Rightarrow> Some r | None \<Rightarrow> d k) else None)"
proof (induction kwargs arbitrary: d)
  case Nil
  then show ?case by (auto simp add: domIff)
next
  case (Cons kv kwargs)
  from Cons.prems have notin: "fst kv \<notin> fst ` set kwargs" and dist: "distinct (map fst kwargs)"
    by auto
  from notin have none: "map_of kwargs (fst kv) = None"
    by (simp add: map_of_eq_None_iff)
  show ?case
    using Cons.IH [OF dist, of "override kv d"] none
    by (cases kv) (auto simp add: dom_override override_def domIff split: option.splits)
qed

lemma fold_override_unknown:
  "\<forall>k \<in> fst ` set kwargs. k \<notin> dom d \<Longrightarrow> fold override kwargs d = d"
  by (induction kwargs arbitrary: d) (auto simp add: override_def domIff)

text \<open>
  C6. The constructor replaces the default rule of every override key that is a key of
  the default dictionary and ignores every other override key: the rule of a name \<open>k\<close>
  is the override given for \<open>k\<close> if \<open>k\<close> is a default key with an override, the default
  rule if \<open>k\<close> is a default key without one, and none otherwise. When no override key is
  a default key, the dictionary is the default one. (Keyword arguments have distinct
  keys.)
\<close>

theorem init_overrides_known_keys_only:
  assumes "distinct (map fst kwargs)"
  shows "fmt_dict (FlagFormatter_init kwargs) k =
           (if k \<in> dom (map_of default_fmt_dict)
            then (case map_of kwargs k of Some r \<Rightarrow> Some r | None \<Rightarrow> map_of default_fmt_dict k)
            else None) \<and>
         ((\<forall>k \<in> fst ` set kwargs. k \<notin> dom (map_of default_fmt_dict)) \<longrightarrow>
            fmt_dict (FlagFormatter_init kwargs) = map_of default_fmt_dict)"
  using fold_override [OF assms] fold_override_unknown
  by (simp add: FlagFormatter_init_def)

theorem init_overrides_known_keys_only_witness:
  "fmt_dict (FlagFormatter_init [(''dAv'', Pattern ''{:.3f}''), (''bogus'', Pattern ''{:d}'')]) ''dAv'' =
     Some (Pattern ''{:.3f}'') \<and>
   fmt_dict (FlagFormatter_init [(''dAv'', Pattern ''{:.3f}''), (''bogus'', Pattern ''{:d}'')]) ''nt'' =
     Some (Pattern ''{:d}'') \<and>
   fmt_dict (FlagFormatter_init [(''dAv'', Pattern ''{:.3f}''), (''bogus'', Pattern ''{:d}'')]) ''bogus'' =
     None \<and>
   fmt_dict (FlagFormatter_init [(''bogus'', Pattern ''{:d}''), (''DAV'', Pattern ''{:d}'')]) =
     map_of default_fmt_dict"
proof -
  let ?kw = "[(''dAv'', Pattern ''{:.3f}''), (''bogus'', Pattern ''{:d}'')]"
  let ?un = "[(''bogus'', Pattern ''{:d}''), (''DAV'', Pattern ''{:d}'')]"
  have d1: "distinct (map fst ?kw)" and d2: "distinct (map fst ?un)"
    by simp_all
  have unknown: "\<forall>k \<in> fst ` set ?un. k \<notin> dom (map_of default_fmt_dict)"
    by (simp add: default_fmt_dict_def)
  show ?thesis
    using init_overrides_known_keys_only [OF d1, of "''dAv''"]
      init_overrides_known_keys_only [OF d1, of "''nt''"]
      init_overrides_known_keys_only [OF d1, of "''bogus''"]
      init_overrides_known_keys_only [OF d2, of "''x''"] unknown
    by (simp add: default_fmt_dict_def)
qed

section \<open>hybridMC\<close>

lemma add_flags_prefix: "\<exists>rest. add_flags cmd l = cmd @ rest"
  by (simp add: add_flags_def)

lemma add_outfile_prefix: "add_outfile fmt kwargs cmd = Inr cmd' \<Longrightarrow> \<exists>rest. cmd' = cmd @ rest"
  by (auto simp add: add_outfile_def split: if_splits sum.splits)

lemmas run_wrapper =
  get_formatter_def as_formatter_def kwargs_get_def finish_def add_flags_def add_outfile_def

text \<open>
  C8. A call \<^verbatim>\<open>hybridMC(hmcdatfile, hmcsfhfile, norun=..., ...)\<close> with \<^verbatim>\<open>norun\<close> set
  that returns, returns the command string, and the string begins with \<^verbatim>\<open>hybridMC\<close>,
  the SFH file path and then the data file path: the second parameter comes first. With
  no option but \<^verbatim>\<open>norun\<close> the call returns exactly these three words.
\<close>

theorem hybridMC_swaps_positionals:
  assumes "truthy (kwargs_get kwargs (VStr ''norun''))"
  shows "(\<forall>out. hybridMC fmt (VStr dat) (VStr sfh) kwargs given = Inr out \<longrightarrow>
            (\<exists>rest. out = Returned (''hybridMC '' @ sfh @ '' '' @ dat @ rest))) \<and>
         hybridMC fmt (VStr dat) (VStr sfh) [VStr ''norun'' \<mapsto> VBool True] None =
           Inr (Returned (''hybridMC '' @ sfh @ '' '' @ dat))"
proof (intro conjI allI impI)
  fix out
  assume ret: "hybridMC fmt (VStr dat) (VStr sfh) kwargs given = Inr out"
  let ?cmd = "''hybridMC '' @ sfh @ '' '' @ dat"
  from ret obtain l cmd where
    cmd: "add_outfile fmt kwargs (add_flags ?cmd l) = Inr cmd"
    and out: "out = finish kwargs cmd"
    by (auto simp add: hybridMC_def split: sum.splits)
  from add_flags_prefix obtain r1 where "add_flags ?cmd l = ?cmd @ r1"
    by blast
  moreover from add_outfile_prefix [OF cmd] obtain r2 where "cmd = add_flags ?cmd l @ r2"
    by blast
  ultimately have "cmd = ''hybridMC '' @ sfh @ '' '' @ dat @ (r1 @ r2)"
    by simp
  with out assms show "\<exists>rest. out = Returned (''hybridMC '' @ sfh @ '' '' @ dat @ rest)"
    by (auto simp add: finish_def)
next
  show "hybridMC fmt (VStr dat) (VStr sfh) [VStr ''norun'' \<mapsto> VBool True] None =
          Inr (Returned (''hybridMC '' @ sfh @ '' '' @ dat))"
    by (simp add: hybridMC_def hybridMC_flags_def run_wrapper FlagFormatter_call_def)
qed

lemma hybridMC_example:
  "hybridMC str_format (VStr ''a.dat'') (VStr ''b.sfh'')
     [VStr ''nmc'' \<mapsto> VInt 1000, VStr ''norun'' \<mapsto> VBool True, VStr ''dt'' \<mapsto> VFloat 1 (- 2),
      VStr ''keepall'' \<mapsto> VBool True] None =
   Inr (Returned ''hybridMC b.sfh a.dat -dt=0.25 -keepall -nmc=1000'')"
  by (simp add: hybridMC_def hybridMC_flags_def run_wrapper run_call run_format)

theorem hybridMC_swaps_positionals_witness:
  "truthy (kwargs_get [VStr ''nmc'' \<mapsto> VInt 1000, VStr ''norun'' \<mapsto> VBool True,
                       VStr ''dt'' \<mapsto> VFloat 1 (- 2), VStr ''keepall'' \<mapsto> VBool True]
             (VStr ''norun'')) \<and>
   hybridMC str_format (VStr ''a.dat'') (VStr ''b.sfh'')
     [VStr ''nmc'' \<mapsto> VInt 1000, VStr ''norun'' \<mapsto> VBool True, VStr ''dt'' \<mapsto> VFloat 1 (- 2),
      VStr ''keepall'' \<mapsto> VBool True] None =
   Inr (Returned ''hybridMC b.sfh a.dat -dt=0.25 -keepall -nmc=1000'') \<and>
   (\<exists>rest. ''hybridMC b.sfh a.dat -dt=0.25 -keepall -nmc=1000'' =
            ''hybridMC '' @ ''b.sfh'' @ '' '' @ ''a.dat'' @ rest)"
proof -
  let ?kw = "[VStr ''nmc'' \<mapsto> VInt 1000, VStr ''norun'' \<mapsto> VBool True,
              VStr ''dt'' \<mapsto> VFloat 1 (- 2), VStr ''keepall'' \<mapsto> VBool True]"
  have norun: "truthy (kwargs_get ?kw (VStr ''norun''))"
    by (simp add: kwargs_get_def)
  from hybridMC_swaps_positionals [OF norun, of str_format "''a.dat''" "''b.sfh''" None]
    hybridMC_example norun
  show ?thesis by simp
qed

section \<open>calcsfh and the alpha flag\<close>

lemma kwargs_get_upd:
  "kwargs_get (kw(k \<mapsto> VBool True)) k' = (if k' = k then VBool True else kwargs_get kw k')"
  by (simp add: kwargs_get_def)

lemma select_flag_flags:
  assumes "select_flag name (kw, fl) = Inr st"
    and "\<not> spells_alpha (kwargs_get kw (VStr name))"
    and "\<forall>flag \<in> set fl. hashable flag \<and> flag \<noteq> VNone \<and> \<not> spells_alpha flag"
  shows "\<forall>flag \<in> set (snd st). hashable flag \<and> flag \<noteq> VNone \<and> \<not> spells_alpha flag"
  using assms by (auto simp add: select_flag_def split: if_splits)

lemma select_flag_get:
  assumes "select_flag name (kw, fl) = Inr st"
  shows "kwargs_get (fst st) k = VBool True \<or> kwargs_get (fst st) k = kwargs_get kw k"
  using assms by (auto simp add: select_flag_def kwargs_get_upd split: if_splits)

lemma static_flags_plain:
  "\<forall>flag \<in> set (mode_flags @ model_generation_flags). hashable flag \<and> flag \<noteq> VNone \<and> \<not> spells_alpha flag"
  by (simp add: mode_flags_def model_generation_flags_def)

lemma calcsfh_flags_steps:
  assumes "calcsfh_flags kwargs = Inr st"
  obtains st1 st2 where
    "select_flag ''mode'' (kwargs, []) = Inr st1"
    "select_flag ''model'' (fst st1, snd st1 @ mode_flags @ model_generation_flags) = Inr st2"
    "select_flag ''transformation''
       (fst st2, if kwargs_get (fst st1) (VStr ''model'') = VStr ''DART''
                 then snd st2 @ [VStr ''alpha''] else snd st2) = Inr st"
proof (cases "select_flag ''mode'' (kwargs, [])")
  case (Inl e)
  with assms show ?thesis by (simp add: calcsfh_flags_def)
next
  case st1: (Inr st1)
  show ?thesis
  proof (cases "select_flag ''model'' (fst st1, snd st1 @ mode_flags @ model_generation_flags)")
    case (Inl e)
    with assms st1 show ?thesis by (simp add: calcsfh_flags_def)
  next
    case (Inr st2)
    with assms st1 that show ?thesis by (simp add: calcsfh_flags_def)
  qed
qed

lemma spells_alpha_get:
  assumes "select_flag name (kw, fl) = Inr st" and "\<not> spells_alpha (kwargs_get kw k)"
  shows "\<not> spells_alpha (kwargs_get (fst st) k)"
  using select_flag_get [OF assms(1), of k] assms(2) by auto

lemma calcsfh_flags_plain:
  assumes nd: "kwargs (VStr ''model'') \<noteq> Some (VStr ''DART'')"
    and plain: "plain_selections kwargs"
    and st: "calcsfh_flags kwargs = Inr st"
  shows "\<forall>flag \<in> set (snd st). hashable flag \<and> flag \<noteq> VNone \<and> \<not> spells_alpha flag"
proof -
  from st obtain st1 st2 where
    s1: "select_flag ''mode'' (kwargs, []) = Inr st1"
    and s2: "select_flag ''model'' (fst st1, snd st1 @ mode_flags @ model_generation_flags) = Inr st2"
    and s3: "select_flag ''transformation''
               (fst st2, if kwargs_get (fst st1) (VStr ''model'') = VStr ''DART''
                         then snd st2 @ [VStr ''alpha''] else snd st2) = Inr st"
    by (rule calcsfh_flags_steps)
  let ?P = "\<lambda>flag. hashable flag \<and> flag \<noteq> VNone \<and> \<not> spells_alpha flag"
  from plain have pm: "\<not> spells_alpha (kwargs_get kwargs (VStr ''mode''))"
    and pd: "\<not> spells_alpha (kwargs_get kwargs (VStr ''model''))"
    and pt: "\<not> spells_alpha (kwargs_get kwargs (VStr ''transformation''))"
    by (simp_all add: plain_selections_def)
  from nd have nd': "kwargs_get kwargs (VStr ''model'') \<noteq> VStr ''DART''"
    by (cases "kwargs (VStr ''model'')") (simp_all add: kwargs_get_def)
  have p1: "\<forall>flag \<in> set (snd st1). ?P flag"
    using select_flag_flags [OF s1 pm] by simp
  have m1: "\<not> spells_alpha (kwargs_get (fst st1) (VStr ''model''))"
    by (rule spells_alpha_get [OF s1 pd])
  have d1: "kwargs_get (fst st1) (VStr ''model'') \<noteq> VStr ''DART''"
    using select_flag_get [OF s1, of "VStr ''model''"] nd' by auto
  have p12: "\<forall>flag \<in> set (snd st1 @ mode_flags @ model_generation_flags). ?P flag"
    using p1 static_flags_plain by auto
  have p2: "\<forall>flag \<in> set (snd st2). ?P flag"
    by (rule select_flag_flags [OF s2 m1 p12])
  have t2: "\<not> spells_alpha (kwargs_get (fst st2) (VStr ''transformation''))"
    by (rule spells_alpha_get [OF s2 spells_alpha_get [OF s1 pt]])
  from s3 d1 have s3': "select_flag ''transformation'' (fst st2, snd st2) = Inr st"
    by simp
  show ?thesis
    by (rule select_flag_flags [OF s3' t2 p2])
qed

lemma prefix_alpha_eq:
  assumes "prefix ''alpha='' (s @ ''='' @ r)"
  shows "prefix ''alpha'' s"
proof -
  from assms consider "prefix ''alpha='' s" | us where "''alpha='' = s @ us" "prefix us (''='' @ r)"
    by (auto simp add: prefix_append)
  then show ?thesis
  proof cases
    case 1
    then show ?thesis by (auto simp add: prefix_def)
  next
    case 2
    show ?thesis
    proof (cases us)
      case Nil
      with 2 show ?thesis by (auto simp add: prefix_def)
    next
      case (Cons u us')
      with 2 have "u = CHR ''=''" by simp
      with 2 Cons have "''alpha='' = s @ CHR ''='' # us'" by simp
      then have "s = ''alpha''"
        by (auto simp add: append_eq_Cons_conv Cons_eq_append_conv)
      then show ?thesis by simp
    qed
  qed
qed

lemma call_token_shape:
  assumes "FlagFormatter_call fmt self flag v delim = Inr (Some t)"
    and "hashable flag" and "flag \<noteq> VNone" and "prefix ''-alpha='' t"
  shows "spells_alpha flag"
proof (cases flag)
  case (VStr s)
  from assms(1) VStr consider "t = ''-'' @ s" | r where "t = ''-'' @ s @ ''='' @ r"
    by (auto simp add: FlagFormatter_call_def split: if_splits sum.splits)
  then show ?thesis
  proof cases
    case 1
    with assms(4) have "prefix ''alpha='' s" by simp
    then have "prefix ''alpha'' s" by (auto simp add: prefix_def)
    with VStr show ?thesis by simp
  next
    case 2
    with assms(4) have "prefix ''alpha='' (s @ ''='' @ r)" by simp
    from prefix_alpha_eq [OF this] VStr show ?thesis by simp
  qed
qed (use assms in \<open>auto simp add: FlagFormatter_call_def split: if_splits sum.splits\<close>)

lemma flagstr_list_no_alpha:
  assumes "flagstr_list (as_formatter fmt self) kw fl = Inr l"
    and "\<forall>flag \<in> set fl. hashable flag \<and> flag \<noteq> VNone \<and> \<not> spells_alpha flag"
  shows "\<forall>t \<in> set l. \<not> prefix ''-alpha='' t"
  using assms
proof (induction fl arbitrary: l)
  case Nil
  then show ?case by simp
next
  case (Cons flag fl)
  from Cons.prems(1) obtain tok l' where
    tok: "as_formatter fmt self flag (kwargs_get kw flag) = Inr tok"
    and rest: "flagstr_list (as_formatter fmt self) kw fl = Inr l'"
    and l: "l = (case tok of None \<Rightarrow> l' | Some s \<Rightarrow> (if s = [] then l' else s # l'))"
    by (auto split: sum.splits)
  from Cons.IH [OF rest] Cons.prems(2) have ih: "\<forall>t \<in> set l'. \<not> prefix ''-alpha='' t"
    by simp
  show ?case
  proof (cases tok)
    case None
    with l ih show ?thesis by simp
  next
    case (Some s)
    have "\<not> prefix ''-alpha='' s"
    proof
      assume "prefix ''-alpha='' s"
      with tok Some Cons.prems(2) call_token_shape [of fmt self flag "kwargs_get kw flag" "'',''" s]
      show False by (auto simp add: as_formatter_def)
    qed
    with l ih Some show ?thesis by simp
  qed
qed

lemma flagstr_list_TypeError:
  "flagstr_list (\<lambda>key val. Inl TypeError) kw fl = Inr l \<Longrightarrow> l = []"
  by (cases fl) auto

lemma calcsfh_flagstrs_no_alpha:
  assumes nd: "kwargs (VStr ''model'') \<noteq> Some (VStr ''DART'')"
    and plain: "plain_selections kwargs"
    and r: "calcsfh_flagstrs fmt kwargs (map_option (as_formatter fmt) fm) = Inr r"
  shows "\<forall>t \<in> set (snd r). \<not> prefix ''-alpha='' t"
proof -
  from r obtain st where st: "calcsfh_flags kwargs = Inr st"
    and l: "flagstr_list (get_formatter fmt (fst st) (map_option (as_formatter fmt) fm)) (fst st) (snd st) = Inr (snd r)"
    by (auto simp add: calcsfh_flagstrs_def split: sum.splits)
  note fl = calcsfh_flags_plain [OF nd plain st]
  show ?thesis
  proof (cases "fst st (VStr ''formatter'')")
    case (Some v)
    then have "get_formatter fmt (fst st) (map_option (as_formatter fmt) fm) = (\<lambda>key val. Inl TypeError)"
      by (simp add: get_formatter_def)
    with l have "snd r = []"
      using flagstr_list_TypeError by simp
    then show ?thesis by simp
  next
    case None
    then obtain self where
      "get_formatter fmt (fst st) (map_option (as_formatter fmt) fm) = as_formatter fmt self"
      by (cases fm) (simp_all add: get_formatter_def)
    with l have "flagstr_list (as_formatter fmt self) (fst st) (snd st) = Inr (snd r)"
      by simp
    from flagstr_list_no_alpha [OF this fl] show ?thesis .
  qed
qed


lemma kwargs_get_other:
  "k \<noteq> VStr ''alpha'' \<Longrightarrow>
   kwargs_get (if c then kw else kw(VStr ''alpha'' := a)) k = kwargs_get kw k"
  by (simp add: kwargs_get_def)

lemma select_flag_alpha:
  assumes "name \<noteq> ''alpha''"
  shows "select_flag name (if VStr ''alpha'' \<in> set fl then kw else kw(VStr ''alpha'' := a), fl) =
     (case select_flag name (kw, fl) of
        Inl e \<Rightarrow> Inl e
      | Inr st \<Rightarrow> Inr (if VStr ''alpha'' \<in> set (snd st) then fst st
                      else (fst st)(VStr ''alpha'' := a), snd st))"
proof -
  let ?v = "kwargs_get kw (VStr name)"
  from assms have v: "kwargs_get (if VStr ''alpha'' \<in> set fl then kw else kw(VStr ''alpha'' := a)) (VStr name) = ?v"
    by (simp add: kwargs_get_other)
  show ?thesis
  proof (cases "truthy ?v \<and> hashable ?v")
    case False
    then show ?thesis
      by (auto simp add: select_flag_def v)
  next
    case True
    show ?thesis
    proof (cases "?v = VStr ''alpha''")
      case True
      with \<open>truthy ?v \<and> hashable ?v\<close> show ?thesis
        by (simp add: select_flag_def v)
    next
      case False
      then have "(kw(VStr ''alpha'' := a))(?v \<mapsto> VBool True) = (kw(?v \<mapsto> VBool True))(VStr ''alpha'' := a)"
        by (simp add: fun_upd_twist)
      with False \<open>truthy ?v \<and> hashable ?v\<close> show ?thesis
        by (simp add: select_flag_def v)
    qed
  qed
qed

lemma alpha_not_static: "VStr ''alpha'' \<notin> set (mode_flags @ model_generation_flags)"
  by (simp add: mode_flags_def model_generation_flags_def)

lemma calcsfh_flags_alpha:
  assumes nd: "kwargs (VStr ''model'') \<noteq> Some (VStr ''DART'')"
  shows "calcsfh_flags (kwargs(VStr ''alpha'' := a)) =
     (case calcsfh_flags kwargs of
        Inl e \<Rightarrow> Inl e
      | Inr st \<Rightarrow> Inr (if VStr ''alpha'' \<in> set (snd st) then fst st
                      else (fst st)(VStr ''alpha'' := a), snd st))"
proof -
  let ?A = "VStr ''alpha''"
  have s1: "select_flag ''mode'' (kwargs(?A := a), []) =
     (case select_flag ''mode'' (kwargs, []) of
        Inl e \<Rightarrow> Inl e
      | Inr st \<Rightarrow> Inr (if ?A \<in> set (snd st) then fst st else (fst st)(?A := a), snd st))"
    using select_flag_alpha [of "''mode''" "[]" kwargs a] by simp
  show ?thesis
  proof (cases "select_flag ''mode'' (kwargs, [])")
    case (Inl e)
    with s1 show ?thesis by (simp add: calcsfh_flags_def)
  next
    case st1: (Inr st1)
    let ?fl2 = "snd st1 @ mode_flags @ model_generation_flags"
    let ?kw1 = "if ?A \<in> set (snd st1) then fst st1 else (fst st1)(?A := a)"
    have in2: "?A \<in> set ?fl2 \<longleftrightarrow> ?A \<in> set (snd st1)"
      using alpha_not_static by auto
    from nd have nd': "kwargs_get kwargs (VStr ''model'') \<noteq> VStr ''DART''"
      by (cases "kwargs (VStr ''model'')") (simp_all add: kwargs_get_def)
    have d1: "kwargs_get (fst st1) (VStr ''model'') \<noteq> VStr ''DART''"
      using select_flag_get [OF st1, of "VStr ''model''"] nd' by auto
    have d1': "kwargs_get ?kw1 (VStr ''model'') \<noteq> VStr ''DART''"
      using d1 by (simp add: kwargs_get_other)
    have s2: "select_flag ''model'' (?kw1, ?fl2) =
       (case select_flag ''model'' (fst st1, ?fl2) of
          Inl e \<Rightarrow> Inl e
        | Inr st \<Rightarrow> Inr (if ?A \<in> set (snd st) then fst st else (fst st)(?A := a), snd st))"
      using select_flag_alpha [of "''model''" ?fl2 "fst st1" a] in2 by simp
    show ?thesis
    proof (cases "select_flag ''model'' (fst st1, ?fl2)")
      case (Inl e)
      with s1 st1 s2 show ?thesis by (simp add: calcsfh_flags_def)
    next
      case st2: (Inr st2)
      have s3: "select_flag ''transformation''
           (if ?A \<in> set (snd st2) then fst st2 else (fst st2)(?A := a), snd st2) =
         (case select_flag ''transformation'' (fst st2, snd st2) of
            Inl e \<Rightarrow> Inl e
          | Inr st \<Rightarrow> Inr (if ?A \<in> set (snd st) then fst st else (fst st)(?A := a), snd st))"
        using select_flag_alpha [of "''transformation''" "snd st2" "fst st2" a] by simp
      have lhs: "calcsfh_flags (kwargs(?A := a)) =
           select_flag ''transformation''
             (if ?A \<in> set (snd st2) then fst st2 else (fst st2)(?A := a), snd st2)"
        using s1 st1 s2 st2 d1' by (simp add: calcsfh_flags_def)
      have rhs: "calcsfh_flags kwargs = select_flag ''transformation'' (fst st2, snd st2)"
        using st1 st2 d1 by (simp add: calcsfh_flags_def)
      show ?thesis
        unfolding lhs rhs s3 ..
    qed
  qed
qed

lemma flagstr_list_cong:
  "\<forall>flag \<in> set fl. kw1 flag = kw2 flag \<Longrightarrow> flagstr_list f kw1 fl = flagstr_list f kw2 fl"
  by (induction fl) (auto simp add: kwargs_get_def split: sum.splits)

lemma calcsfh_alpha:
  assumes nd: "kwargs (VStr ''model'') \<noteq> Some (VStr ''DART'')"
  shows "calcsfh fmt p ph f s (kwargs(VStr ''alpha'' := a)) given = calcsfh fmt p ph f s kwargs given"
proof (cases "calcsfh_flags kwargs")
  case (Inl e)
  with calcsfh_flags_alpha [of kwargs a, OF nd]
  have "calcsfh_flagstrs fmt (kwargs(VStr ''alpha'' := a)) given = Inl e"
    and "calcsfh_flagstrs fmt kwargs given = Inl e"
    by (simp_all add: calcsfh_flagstrs_def)
  then show ?thesis
    by (simp add: calcsfh_def cong: sum.case_cong)
next
  case (Inr st)
  let ?A = "VStr ''alpha''"
  let ?kw = "if ?A \<in> set (snd st) then fst st else (fst st)(?A := a)"
  let ?l = "flagstr_list (get_formatter fmt (fst st) given) (fst st) (snd st)"
  from Inr calcsfh_flags_alpha [of kwargs a, OF nd]
  have st': "calcsfh_flags (kwargs(?A := a)) = Inr (?kw, snd st)"
    by simp
  have fm: "get_formatter fmt ?kw given = get_formatter fmt (fst st) given"
    by (simp add: get_formatter_def)
  have fs: "flagstr_list (get_formatter fmt (fst st) given) ?kw (snd st) = ?l"
    by (rule flagstr_list_cong) auto
  have out: "add_outfile fmt ?kw c = add_outfile fmt (fst st) c" for c
    by (simp add: add_outfile_def kwargs_get_other)
  have fin: "finish ?kw c = finish (fst st) c" for c
    by (simp add: finish_def kwargs_get_other)
  have new: "calcsfh_flagstrs fmt (kwargs(?A := a)) given =
      (case ?l of Inl e \<Rightarrow> Inl e | Inr l \<Rightarrow> Inr (?kw, l))"
    unfolding calcsfh_flagstrs_def st' by (simp only: sum.case fst_conv snd_conv fm fs)
  have old: "calcsfh_flagstrs fmt kwargs given =
      (case ?l of Inl e \<Rightarrow> Inl e | Inr l \<Rightarrow> Inr (fst st, l))"
    unfolding calcsfh_flagstrs_def Inr by simp
  show ?thesis
  proof (cases ?l)
    case (Inl e)
    with new old show ?thesis by (simp add: calcsfh_def cong: sum.case_cong)
  next
    case (Inr l)
    with new old show ?thesis by (simp add: calcsfh_def out fin cong: sum.case_cong)
  qed
qed

lemmas run_calcsfh =
  calcsfh_def calcsfh_flagstrs_def calcsfh_flags_def select_flag_def mode_flags_def
  model_generation_flags_def

text \<open>
  C7, as claimed: no \<^verbatim>\<open>calcsfh\<close> call whose \<^verbatim>\<open>model\<close> is not \<^verbatim>\<open>'DART'\<close> has an
  \<^verbatim>\<open>-alpha=...\<close> token in its command. A selection is turned into a flag whatever
  its name is, so \<^verbatim>\<open>calcsfh('p', 'ph', 'f', 's', mode='alpha=0.5', model='PADUA06',
  norun=True)\<close> returns a command with the token \<^verbatim>\<open>-alpha=0.5\<close>.
\<close>

theorem alpha_token_without_DART_counterexample:
  "calcsfh str_format (VStr ''p'') (VStr ''ph'') (VStr ''f'') (VStr ''s'')
     [VStr ''mode'' \<mapsto> VStr ''alpha=0.5'', VStr ''model'' \<mapsto> VStr ''PADUA06'',
      VStr ''norun'' \<mapsto> VBool True] None =
   Inr (Returned ''calcsfh p ph f s -alpha=0.5 -PADUA06'')"
  by (simp add: run_calcsfh run_wrapper run_call)

text \<open>
  C7, amended. In a \<^verbatim>\<open>calcsfh\<close> call whose \<^verbatim>\<open>model\<close> is not \<^verbatim>\<open>'DART'\<close>, an
  \<^verbatim>\<open>alpha\<close> value has no effect: the call with \<^verbatim>\<open>alpha\<close> supplied does exactly what
  the call without it does (the same command returned or run, or the same exception),
  whatever the formatter and the other options. When moreover none of \<^verbatim>\<open>mode\<close>,
  \<^verbatim>\<open>model\<close> and \<^verbatim>\<open>transformation\<close> is itself a string that begins with \<^verbatim>\<open>alpha\<close>, the
  flag list does not contain \<^verbatim>\<open>alpha\<close>, and with a FlagFormatter as formatter (the
  default one or any other instance) none of the tokens the formatter returns, the
  elements of \<^verbatim>\<open>flagstr_list\<close> that are joined into the command, begins with
  \<^verbatim>\<open>-alpha=\<close>. Nothing is said of a formatter that is another function, nor of text that
  a file path or a selection containing a space carries into the command string. With
  \<^verbatim>\<open>model='DART'\<close> the token is there (\<open>calcsfh_example_DART\<close>).
\<close>

theorem alpha_only_with_DART:
  assumes "kwargs (VStr ''model'') \<noteq> Some (VStr ''DART'')"
  shows "calcsfh fmt p ph f s (kwargs(VStr ''alpha'' \<mapsto> v)) given =
           calcsfh fmt p ph f s (kwargs(VStr ''alpha'' := None)) given \<and>
         (plain_selections kwargs \<longrightarrow>
            (\<forall>st. calcsfh_flags kwargs = Inr st \<longrightarrow> VStr ''alpha'' \<notin> set (snd st)) \<and>
            (\<forall>r. calcsfh_flagstrs fmt kwargs (map_option (as_formatter fmt) self) = Inr r \<longrightarrow>
                 (\<forall>t \<in> set (snd r). \<not> prefix ''-alpha='' t)))"
proof (intro conjI impI allI)
  let ?kw = "kwargs(VStr ''alpha'' := None)"
  from assms have "?kw (VStr ''model'') \<noteq> Some (VStr ''DART'')"
    by simp
  from calcsfh_alpha [of ?kw, OF this, of fmt p ph f s "Some v" given]
  show "calcsfh fmt p ph f s (kwargs(VStr ''alpha'' \<mapsto> v)) given =
        calcsfh fmt p ph f s ?kw given"
    by simp
next
  fix st
  assume "plain_selections kwargs" and "calcsfh_flags kwargs = Inr st"
  from calcsfh_flags_plain [of kwargs, OF assms this]
  show "VStr ''alpha'' \<notin> set (snd st)"
    by auto
next
  fix r
  assume "plain_selections kwargs"
    and "calcsfh_flagstrs fmt kwargs (map_option (as_formatter fmt) self) = Inr r"
  from calcsfh_flagstrs_no_alpha [of kwargs, OF assms this]
  show "\<forall>t \<in> set (snd r). \<not> prefix ''-alpha='' t" .
qed

lemma calcsfh_example_PADUA:
  "calcsfh str_format (VStr ''par'') (VStr ''phot'') (VStr ''fake'') (VStr ''sfh'')
     [VStr ''model'' \<mapsto> VStr ''PADUA06'', VStr ''zerobin'' \<mapsto> VInt 0,
      VStr ''norun'' \<mapsto> VBool True] None =
   Inr (Returned ''calcsfh par phot fake sfh -zerobin=0 -PADUA06'')"
  by (simp add: run_calcsfh run_wrapper run_call run_format)

lemma calcsfh_example_DART:
  "calcsfh str_format (VStr ''par'') (VStr ''phot'') (VStr ''fake'') (VStr ''sfh'')
     [VStr ''model'' \<mapsto> VStr ''DART'', VStr ''zerobin'' \<mapsto> VInt 0,
      VStr ''norun'' \<mapsto> VBool True, VStr ''alpha'' \<mapsto> VFloat 3602879701896397 (- 54)] None =
   Inr (Returned ''calcsfh par phot fake sfh -zerobin=0 -DART -alpha=0.20'')"
  by (simp add: run_calcsfh run_wrapper run_call run_format)

lemma calcsfh_example_flagstrs:
  "(case calcsfh_flagstrs str_format
     [VStr ''model'' \<mapsto> VStr ''PADUA06'', VStr ''zerobin'' \<mapsto> VInt 0,
      VStr ''norun'' \<mapsto> VBool True, VStr ''alpha'' \<mapsto> VFloat 3602879701896397 (- 54)] None of Inl e \<Rightarrow> Inl e | Inr r \<Rightarrow> Inr (snd r)) =
   Inr [''-zerobin=0'', ''-PADUA06'']"
  by (simp add: run_calcsfh run_wrapper run_call run_format)


theorem alpha_only_with_DART_witness:
  "[VStr ''model'' \<mapsto> VStr ''PADUA06'', VStr ''zerobin'' \<mapsto> VInt 0, VStr ''norun'' \<mapsto> VBool True]
     (VStr ''model'') \<noteq> Some (VStr ''DART'') \<and>
   plain_selections
     [VStr ''model'' \<mapsto> VStr ''PADUA06'', VStr ''zerobin'' \<mapsto> VInt 0, VStr ''norun'' \<mapsto> VBool True,
      VStr ''alpha'' \<mapsto> VFloat 3602879701896397 (- 54)] \<and>
   calcsfh str_format (VStr ''par'') (VStr ''phot'') (VStr ''fake'') (VStr ''sfh'')
     [VStr ''model'' \<mapsto> VStr ''PADUA06'', VStr ''zerobin'' \<mapsto> VInt 0, VStr ''norun'' \<mapsto> VBool True,
      VStr ''alpha'' \<mapsto> VFloat 3602879701896397 (- 54)] None =
   Inr (Returned ''calcsfh par phot fake sfh -zerobin=0 -PADUA06'') \<and>
   list_all (\<lambda>t. \<not> prefix ''-alpha='' t) [''-zerobin=0'', ''-PADUA06''] \<and>
   calcsfh str_format (VStr ''par'') (VStr ''phot'') (VStr ''fake'') (VStr ''sfh'')
     [VStr ''model'' \<mapsto> VStr ''DART'', VStr ''zerobin'' \<mapsto> VInt 0, VStr ''norun'' \<mapsto> VBool True,
      VStr ''alpha'' \<mapsto> VFloat 3602879701896397 (- 54)] None =
   Inr (Returned ''calcsfh par phot fake sfh -zerobin=0 -DART -alpha=0.20'')"
proof -
  let ?K = "[VStr ''model'' \<mapsto> VStr ''PADUA06'', VStr ''zerobin'' \<mapsto> VInt 0,
             VStr ''norun'' \<mapsto> VBool True]"
  let ?v = "VFloat 3602879701896397 (- 54)"
  let ?K1 = "?K(VStr ''alpha'' \<mapsto> ?v)"
  have nd: "?K (VStr ''model'') \<noteq> Some (VStr ''DART'')"
    by simp
  have nd1: "?K1 (VStr ''model'') \<noteq> Some (VStr ''DART'')"
    by simp
  have plain: "plain_selections ?K1"
    by (simp add: plain_selections_def kwargs_get_def)
  have same: "?K(VStr ''alpha'' := None) = ?K"
    by (rule ext) simp
  from alpha_only_with_DART [of ?K, OF nd, of str_format "VStr ''par''" "VStr ''phot''"
      "VStr ''fake''" "VStr ''sfh''" ?v None None]
  have a: "calcsfh str_format (VStr ''par'') (VStr ''phot'') (VStr ''fake'') (VStr ''sfh'') ?K1 None =
           Inr (Returned ''calcsfh par phot fake sfh -zerobin=0 -PADUA06'')"
    unfolding same using calcsfh_example_PADUA by simp
  from calcsfh_example_flagstrs obtain r where
    r: "calcsfh_flagstrs str_format ?K1 None = Inr r" and toks: "snd r = [''-zerobin=0'', ''-PADUA06'']"
    by (cases "calcsfh_flagstrs str_format ?K1 None") auto
  from alpha_only_with_DART [of ?K1, OF nd1, of str_format "VStr ''par''" "VStr ''phot''"
      "VStr ''fake''" "VStr ''sfh''" ?v None None] plain r
  have "\<forall>t \<in> set (snd r). \<not> prefix ''-alpha='' t"
    by simp
  with toks have b: "list_all (\<lambda>t. \<not> prefix ''-alpha='' t) [''-zerobin=0'', ''-PADUA06'']"
    by (simp add: list_all_iff)
  from nd plain a b calcsfh_example_DART show ?thesis
    by simp
qed

end
